theory Spec2Isabelle
  imports Main "HOL-Library.AList"
begin

section \<open>Python values, dictionaries and exceptions\<close>

text \<open>
  The configuration handled by \<^verbatim>\<open>synapse/config/database.py\<close> is parsed YAML: nested
  dictionaries with string keys holding strings, integers, booleans, lists and
  \<^verbatim>\<open>None\<close>.  Foreign objects that the code only stores and hands on (the engine's
  \<^verbatim>\<open>on_new_connection\<close> bound method, a reactor, a connection pool, a raw connection)
  are references, modelled by their identity.
\<close>

type_synonym obj = nat

datatype pyval =
    PNone
  | PBool bool
  | PInt int
  | PStr string
  | PList "pyval list"
  | PDict "(string \<times> pyval) list"
  | PObj obj

text \<open>
  A Python \<^verbatim>\<open>dict\<close> keeps its keys in insertion order: an association list, where
  assignment to an existing key replaces the value in place and a new key is appended.
\<close>

type_synonym dict = "(string \<times> pyval) list"

text \<open>
  The exceptions the module can raise.  \<^verbatim>\<open>ConfigError\<close> and \<^verbatim>\<open>RuntimeError\<close> are raised
  with a message formatted from the offending backend name; the model carries that value
  in place of the formatted text.  \<^verbatim>\<open>Raised\<close> stands for any exception of a collaborator
  outside this module.
\<close>

datatype error =
    ConfigError pyval
  | RuntimeError pyval
  | KeyError string
  | AttributeError
  | TypeError
  | Raised string

definition dict_get :: "dict \<Rightarrow> string \<Rightarrow> pyval option" where
  \<comment> \<open>\<^verbatim>\<open>k in d\<close> and \<^verbatim>\<open>d[k]\<close>: \<open>None\<close> is the missing key\<close>
  "dict_get d k = map_of d k"

definition get_default :: "dict \<Rightarrow> string \<Rightarrow> pyval \<Rightarrow> pyval" where
  \<comment> \<open>\<^verbatim>\<open>d.get(k, default)\<close>\<close>
  "get_default d k dflt = (case dict_get d k of None \<Rightarrow> dflt | Some v \<Rightarrow> v)"

definition setitem :: "dict \<Rightarrow> string \<Rightarrow> pyval \<Rightarrow> dict" where
  \<comment> \<open>\<^verbatim>\<open>d[k] = v\<close>\<close>
  "setitem d k v = AList.update k v d"

definition dict_update :: "dict \<Rightarrow> dict \<Rightarrow> dict" where
  \<comment> \<open>\<^verbatim>\<open>d.update(other)\<close>: the items of \<open>other\<close> are assigned in their order\<close>
  "dict_update d other = fold (\<lambda>(k, v) acc. setitem acc k v) other d"

definition keys :: "dict \<Rightarrow> string set" where
  "keys d = fst ` set d"

definition startswith :: "string \<Rightarrow> string \<Rightarrow> bool" where
  \<comment> \<open>\<^verbatim>\<open>s.startswith(p)\<close>\<close>
  "startswith s p = (take (length p) s = p)"

section \<open>DatabaseConnectionConfig\<close>

text \<open>
  The engine returned by \<^verbatim>\<open>create_engine\<close> (module \<^verbatim>\<open>synapse.storage.engines\<close>, a
  collaborator of this file) is used through two attributes only: the bound method
  \<^verbatim>\<open>on_new_connection\<close>, which is stored as a value, and \<^verbatim>\<open>module.connect\<close>, which is
  called with keyword arguments.  A call into a collaborator may fail and may change the
  world outside (open a connection, start threads), so it maps a world \<open>'w\<close> to a result
  and a new world.
\<close>

record 'w engine =
  on_new_connection :: pyval
  module_connect :: "dict \<Rightarrow> 'w \<Rightarrow> (error + obj) \<times> 'w"

record 'w DatabaseConnectionConfig =
  name :: pyval
  config :: dict
  data_stores :: "pyval list"
  engine :: "'w engine"
  pool :: "obj option"

definition sqlite3_pooling :: dict where
  \<comment> \<open>the literal \<^verbatim>\<open>{"cp_min": 1, "cp_max": 1, "check_same_thread": False}\<close>\<close>
  "sqlite3_pooling =
     [(''cp_min'', PInt 1), (''cp_max'', PInt 1), (''check_same_thread'', PBool False)]"

definition setdefault_args_update :: "dict \<Rightarrow> error + dict" where
  \<comment> \<open>\<^verbatim>\<open>d.setdefault("args", {}).update({"cp_min": 1, ...})\<close>, lines 45--47 and 100--102:
      a missing \<^verbatim>\<open>args\<close> is created empty, an existing dictionary is updated in place, and
      any other value has no \<^verbatim>\<open>update\<close> method\<close>
  "setdefault_args_update d =
     (case dict_get d ''args'' of
        None \<Rightarrow> Inr (setitem d ''args'' (PDict (dict_update [] sqlite3_pooling)))
      | Some (PDict a) \<Rightarrow> Inr (setitem d ''args'' (PDict (dict_update a sqlite3_pooling)))
      | Some _ \<Rightarrow> Inl AttributeError)"

definition DatabaseConnectionConfig_init ::
  "(dict \<Rightarrow> error + 'w engine) \<Rightarrow> pyval \<Rightarrow> dict \<Rightarrow> pyval list
     \<Rightarrow> error + 'w DatabaseConnectionConfig" where
  \<comment> \<open>\<^verbatim>\<open>DatabaseConnectionConfig.__init__(self, name, db_config, data_stores)\<close>, with
      \<^verbatim>\<open>create_engine\<close> as a parameter.  \<^verbatim>\<open>db_config\<close> is mutated in place by the source;
      the model returns it as the entity's \<open>config\<close>.\<close>
  "DatabaseConnectionConfig_init create_engine nm db_config stores =
     (case dict_get db_config ''name'' of
        None \<Rightarrow> Inl (KeyError ''name'')
      | Some n \<Rightarrow>
          if n \<notin> {PStr ''sqlite3'', PStr ''psycopg2''} then Inl (ConfigError n)
          else
            (case (if n = PStr ''sqlite3'' then setdefault_args_update db_config
                   else Inr db_config) of
               Inl e \<Rightarrow> Inl e
             | Inr cfg \<Rightarrow>
                 (case create_engine cfg of
                    Inl e \<Rightarrow> Inl e
                  | Inr eng \<Rightarrow>
                      (case dict_get cfg ''args'' of
                         None \<Rightarrow> Inl (KeyError ''args'')
                       | Some (PDict a) \<Rightarrow>
                           Inr \<lparr> name = nm,
                                 config = setitem cfg ''args''
                                   (PDict (setitem a ''cp_openfun'' (on_new_connection eng))),
                                 data_stores = stores,
                                 engine = eng,
                                 pool = None \<rparr>
                       | Some _ \<Rightarrow> Inl TypeError))))"

definition get_pool ::
  "(pyval \<Rightarrow> pyval \<Rightarrow> dict \<Rightarrow> 'w \<Rightarrow> (error + obj) \<times> 'w) \<Rightarrow> pyval
     \<Rightarrow> 'w DatabaseConnectionConfig \<times> 'w
     \<Rightarrow> (error + obj) \<times> 'w DatabaseConnectionConfig \<times> 'w" where
  \<comment> \<open>\<^verbatim>\<open>get_pool(self, reactor)\<close>; the parameter is \<^verbatim>\<open>adbapi.ConnectionPool\<close>, called as
      \<^verbatim>\<open>ConnectionPool(self.config["name"], cp_reactor=reactor, **args)\<close>.  The call itself
      raises \<^verbatim>\<open>TypeError\<close> when \<^verbatim>\<open>args\<close> is no mapping or repeats the keyword
      \<^verbatim>\<open>cp_reactor\<close>.\<close>
  "get_pool ConnectionPool reactor = (\<lambda>(self, w).
     (case pool self of
        Some p \<Rightarrow> (Inr p, self, w)
      | None \<Rightarrow>
          (case dict_get (config self) ''name'' of
             None \<Rightarrow> (Inl (KeyError ''name''), self, w)
           | Some n \<Rightarrow>
               (case get_default (config self) ''args'' (PDict []) of
                  PDict a \<Rightarrow>
                    if ''cp_reactor'' \<in> keys a then (Inl TypeError, self, w)
                    else
                      (case ConnectionPool n reactor a w of
                         (Inl e, w') \<Rightarrow> (Inl e, self, w')
                       | (Inr p, w') \<Rightarrow> (Inr p, self\<lparr> pool := Some p \<rparr>, w'))
                | _ \<Rightarrow> (Inl TypeError, self, w)))))"

definition db_params :: "dict \<Rightarrow> dict" where
  \<comment> \<open>the comprehension \<^verbatim>\<open>{k: v for k, v in args.items() if not k.startswith("cp_")}\<close>\<close>
  "db_params a = filter (\<lambda>(k, v). \<not> startswith k ''cp_'') a"

definition make_conn :: "'w DatabaseConnectionConfig \<Rightarrow> 'w \<Rightarrow> (error + obj) \<times> 'w" where
  \<comment> \<open>\<^verbatim>\<open>make_conn(self)\<close>: \<^verbatim>\<open>self.engine.module.connect(**db_params)\<close>\<close>
  "make_conn self w =
     (case get_default (config self) ''args'' (PDict []) of
        PDict a \<Rightarrow> module_connect (engine self) (db_params a) w
      | _ \<Rightarrow> (Inl AttributeError, w))"

section \<open>DatabaseConfig\<close>

text \<open>
  \<^verbatim>\<open>DatabaseConfig\<close> extends \<^verbatim>\<open>Config\<close> (module \<^verbatim>\<open>synapse.config._base\<close>), whose
  \<^verbatim>\<open>parse_size\<close> and \<^verbatim>\<open>abspath\<close> it calls; both are parameters here.  The attributes
  assigned by \<^verbatim>\<open>read_config\<close> are the fields of the record.  A raised exception ends
  start-up, so the model returns the error alone.
\<close>

record DatabaseConfig =
  event_cache_size :: pyval
  database_config :: pyval

definition set_databasepath ::
  "(pyval \<Rightarrow> error + pyval) \<Rightarrow> pyval \<Rightarrow> DatabaseConfig \<Rightarrow> error + DatabaseConfig" where
  \<comment> \<open>\<^verbatim>\<open>set_databasepath(self, database_path)\<close>, lines 140--145\<close>
  "set_databasepath abspath database_path self =
     (case (if database_path \<noteq> PStr '':memory:'' then abspath database_path
            else Inr database_path) of
        Inl e \<Rightarrow> Inl e
      | Inr p \<Rightarrow>
          (case database_config self of
             PDict d \<Rightarrow>
               if get_default d ''name'' PNone = PStr ''sqlite3'' then
                 if p \<noteq> PNone then
                   (case dict_get d ''args'' of
                      None \<Rightarrow> Inl (KeyError ''args'')
                    | Some (PDict a) \<Rightarrow>
                        Inr (self\<lparr> database_config :=
                               PDict (setitem d ''args'' (PDict (setitem a ''database'' p))) \<rparr>)
                    | Some _ \<Rightarrow> Inl TypeError)
                 else Inr self
               else Inr self
           | _ \<Rightarrow> Inl AttributeError))"

definition read_config ::
  "(pyval \<Rightarrow> error + pyval) \<Rightarrow> (pyval \<Rightarrow> error + pyval) \<Rightarrow> dict \<Rightarrow> error + DatabaseConfig" where
  \<comment> \<open>\<^verbatim>\<open>read_config(self, config, **kwargs)\<close>, lines 88--106; the keyword arguments
      (among them the data directory) are not used by the source\<close>
  "read_config parse_size abspath cfg =
     (case parse_size (get_default cfg ''event_cache_size'' (PStr ''10K'')) of
        Inl e \<Rightarrow> Inl e
      | Inr ecs \<Rightarrow>
          (let dbc0 = get_default cfg ''database'' PNone;
               dbc = (if dbc0 = PNone
                      then PDict [(''name'', PStr ''sqlite3''), (''args'', PDict [])]
                      else dbc0)
           in case dbc of
                PDict d \<Rightarrow>
                  (let n = get_default d ''name'' PNone in
                   if n = PStr ''psycopg2'' then
                     set_databasepath abspath (get_default cfg ''database_path'' PNone)
                       \<lparr> event_cache_size = ecs, database_config = PDict d \<rparr>
                   else if n = PStr ''sqlite3'' then
                     (case setdefault_args_update d of
                        Inl e \<Rightarrow> Inl e
                      | Inr d' \<Rightarrow>
                          set_databasepath abspath (get_default cfg ''database_path'' PNone)
                            \<lparr> event_cache_size = ecs, database_config = PDict d' \<rparr>)
                   else Inl (RuntimeError n))
              | _ \<Rightarrow> Inl AttributeError))"

definition truthy :: "pyval \<Rightarrow> bool" where
  \<comment> \<open>Python's truth value of a configuration value\<close>
  "truthy v =
     (case v of
        PNone \<Rightarrow> False
      | PBool b \<Rightarrow> b
      | PInt i \<Rightarrow> i \<noteq> 0
      | PStr s \<Rightarrow> s \<noteq> []
      | PList xs \<Rightarrow> xs \<noteq> []
      | PDict d \<Rightarrow> d \<noteq> []
      | PObj _ \<Rightarrow> True)"

definition os_path_join :: "string \<Rightarrow> string \<Rightarrow> string" where
  \<comment> \<open>\<^verbatim>\<open>os.path.join(a, b)\<close> of the standard library, on POSIX\<close>
  "os_path_join a b =
     (if startswith b ''/'' then b
      else if a = [] \<or> last a = CHR ''/'' then a @ b
      else a @ ''/'' @ b)"

definition nl :: string where
  "nl = [CHR 0x0A]"

definition dq :: string where
  "dq = [CHR 0x22]"

definition default_database_conf :: "string \<Rightarrow> string" where
  \<comment> \<open>the template of lines 112--118 with \<^verbatim>\<open>%(database_path)s\<close> filled in\<close>
  "default_database_conf database_path =
     ''# The database engine name'' @ nl @
     ''          name: '' @ dq @ ''sqlite3'' @ dq @ nl @
     ''          # Arguments to pass to the engine'' @ nl @
     ''          args:'' @ nl @
     ''            # Path to the database'' @ nl @
     ''            database: '' @ dq @ database_path @ dq @ nl @
     ''            ''"

definition generate_config_section :: "(pyval \<Rightarrow> string) \<Rightarrow> string \<Rightarrow> pyval \<Rightarrow> string" where
  \<comment> \<open>\<^verbatim>\<open>generate_config_section(self, data_dir_path, database_conf, **kwargs)\<close>, lines
      108--135; the parameter renders a given block, the source's
      \<^verbatim>\<open>indent(yaml.dump(database_conf), " " * 10).lstrip()\<close>\<close>
  "generate_config_section dump_indented data_dir_path database_conf =
     (let conf =
        (if \<not> truthy database_conf
         then default_database_conf (os_path_join data_dir_path ''homeserver.db'')
         else dump_indented database_conf)
      in
        ''        ## Database ##'' @ nl @
        nl @
        ''        database:'' @ nl @
        ''          '' @ conf @ nl @
        ''        # Number of events to cache in memory.'' @ nl @
        ''        #'' @ nl @
        ''        #event_cache_size: 10K'' @ nl @
        ''        '')"

section \<open>Collaborators for running the model\<close>

text \<open>
  Concrete collaborators on which the functions above can be evaluated.  The world is the
  list of calls made into the pool constructor and the database driver, so that every
  construction and every raw connect is visible in it; the object returned by a call is
  identified by the position of the call.
\<close>

datatype event = PoolCreated pyval pyval dict | Connected dict

definition log_ConnectionPool ::
  "pyval \<Rightarrow> pyval \<Rightarrow> dict \<Rightarrow> event list \<Rightarrow> (error + obj) \<times> event list" where
  "log_ConnectionPool n reactor a w = (Inr (length w), w @ [PoolCreated n reactor a])"

definition flaky_ConnectionPool ::
  "pyval \<Rightarrow> pyval \<Rightarrow> dict \<Rightarrow> event list \<Rightarrow> (error + obj) \<times> event list" where
  \<comment> \<open>a constructor whose first call raises and whose later calls succeed\<close>
  "flaky_ConnectionPool n reactor a w =
     (if w = [] then (Inl (Raised ''OperationalError''), [PoolCreated n reactor a])
      else (Inr (length w), w @ [PoolCreated n reactor a]))"

definition log_connect :: "dict \<Rightarrow> event list \<Rightarrow> (error + obj) \<times> event list" where
  "log_connect kw w = (Inr (length w), w @ [Connected kw])"

definition log_engine :: "event list engine" where
  "log_engine = \<lparr> on_new_connection = PObj 7, module_connect = log_connect \<rparr>"

definition log_create_engine :: "dict \<Rightarrow> error + event list engine" where
  "log_create_engine db_config = Inr log_engine"

definition posix_abspath :: "pyval \<Rightarrow> error + pyval" where
  \<comment> \<open>a path resolution against the base directory \<^verbatim>\<open>/srv\<close> that hands \<^verbatim>\<open>None\<close> back\<close>
  "posix_abspath v =
     (case v of
        PNone \<Rightarrow> Inr PNone
      | PStr s \<Rightarrow> Inr (PStr (os_path_join ''/srv'' s))
      | _ \<Rightarrow> Inl TypeError)"

definition plain_parse_size :: "pyval \<Rightarrow> error + pyval" where
  \<comment> \<open>a size parser that knows integers and the default \<^verbatim>\<open>10K\<close>\<close>
  "plain_parse_size v =
     (case v of
        PInt i \<Rightarrow> Inr (PInt i)
      | PStr s \<Rightarrow> if s = ''10K'' then Inr (PInt 10240) else Inl (Raised ''ValueError'')
      | _ \<Rightarrow> Inl TypeError)"

definition sqlite_entity :: "event list DatabaseConnectionConfig" where
  \<comment> \<open>the entity constructed from \<^verbatim>\<open>{"name": "sqlite3"}\<close>\<close>
  "sqlite_entity =
     \<lparr> name = PStr ''master'',
       config = [(''name'', PStr ''sqlite3''),
                 (''args'', PDict [(''cp_min'', PInt 1), (''cp_max'', PInt 1),
                                   (''check_same_thread'', PBool False),
                                   (''cp_openfun'', PObj 7)])],
       data_stores = [PStr ''main'', PStr ''state''],
       engine = log_engine,
       pool = None \<rparr>"

definition tuned_sqlite_config :: dict where
  \<comment> \<open>a caller's configuration with pool sizes of its own and a hook of its own\<close>
  "tuned_sqlite_config =
     [(''name'', PStr ''sqlite3''),
      (''args'', PDict [(''database'', PStr ''/data/homeserver.db''),
                        (''cp_min'', PInt 5), (''cp_max'', PInt 5),
                        (''cp_openfun'', PObj 99)])]"

definition tuned_sqlite_args :: dict where
  \<comment> \<open>its \<^verbatim>\<open>args\<close> after construction\<close>
  "tuned_sqlite_args =
     [(''database'', PStr ''/data/homeserver.db''),
      (''cp_min'', PInt 1), (''cp_max'', PInt 1),
      (''cp_openfun'', PObj 7), (''check_same_thread'', PBool False)]"

definition tuned_sqlite_entity :: "event list DatabaseConnectionConfig" where
  "tuned_sqlite_entity =
     \<lparr> name = PStr ''master'',
       config = [(''name'', PStr ''sqlite3''), (''args'', PDict tuned_sqlite_args)],
       data_stores = [PStr ''main''],
       engine = log_engine,
       pool = None \<rparr>"

definition postgres_config :: dict where
  \<comment> \<open>a client-server configuration with a pool size of its own\<close>
  "postgres_config =
     [(''name'', PStr ''psycopg2''),
      (''args'', PDict [(''host'', PStr ''db''), (''cp_max'', PInt 10)])]"

definition postgres_entity :: "event list DatabaseConnectionConfig" where
  \<comment> \<open>the entity constructed from it\<close>
  "postgres_entity =
     \<lparr> name = PStr ''master'',
       config = [(''name'', PStr ''psycopg2''),
                 (''args'', PDict [(''host'', PStr ''db''), (''cp_max'', PInt 10),
                                   (''cp_openfun'', PObj 7)])],
       data_stores = [PStr ''main''],
       engine = log_engine,
       pool = None \<rparr>"

section \<open>Dictionary lemmas\<close>

lemma dict_get_setitem:
  "dict_get (setitem d k v) k' = (if k' = k then Some v else dict_get d k')"
  by (simp add: dict_get_def setitem_def update_conv')

lemma dict_get_pooling:
  "dict_get (dict_update a sqlite3_pooling) k =
     (if k = ''check_same_thread'' then Some (PBool False)
      else if k = ''cp_max'' then Some (PInt 1)
      else if k = ''cp_min'' then Some (PInt 1)
      else dict_get a k)"
  by (simp add: dict_update_def sqlite3_pooling_def dict_get_setitem)

lemma dict_get_db_params:
  "dict_get (db_params a) k = (if startswith k ''cp_'' then None else dict_get a k)"
  unfolding db_params_def dict_get_def
  by (induction a) auto

lemma set_db_params: "set (db_params a) = {(k, v) \<in> set a. \<not> startswith k ''cp_''}"
  by (auto simp: db_params_def)

lemma keys_db_params: "keys (db_params a) = {k \<in> keys a. \<not> startswith k ''cp_''}"
  by (force simp: keys_def db_params_def)

lemma startswith_cp:
  "startswith ''cp_min'' ''cp_''"
  "startswith ''cp_max'' ''cp_''"
  "startswith ''cp_openfun'' ''cp_''"
  "\<not> startswith ''check_same_thread'' ''cp_''"
  by (simp_all add: startswith_def)

section \<open>Claims\<close>

subsection \<open>Raw connections\<close>

text \<open>
  C5.  Whatever \<^verbatim>\<open>args\<close> holds, the keyword arguments that \<^verbatim>\<open>make_conn\<close> builds are
  exactly the entries of \<^verbatim>\<open>args\<close> whose key does not start with \<^verbatim>\<open>cp_\<close>: the same
  entries as a set, and the same value under every such key.  In particular
  \<^verbatim>\<open>cp_min\<close>, \<^verbatim>\<open>cp_max\<close> and \<^verbatim>\<open>cp_openfun\<close> are not among them.  Every call of
  \<^verbatim>\<open>make_conn\<close>, in every world, is one call of the engine's \<^verbatim>\<open>module.connect\<close> on
  these arguments and returns what that call returns: nothing is cached.
\<close>

theorem make_conn_passes_non_cp_args:
  "set (db_params a) = {(k, v) \<in> set a. \<not> startswith k ''cp_''}
   \<and> (\<forall>k. dict_get (db_params a) k = (if startswith k ''cp_'' then None else dict_get a k))
   \<and> ''cp_min'' \<notin> keys (db_params a)
   \<and> ''cp_max'' \<notin> keys (db_params a)
   \<and> ''cp_openfun'' \<notin> keys (db_params a)
   \<and> (get_default (config self) ''args'' (PDict []) = PDict a
        \<longrightarrow> make_conn self w = module_connect (engine self) (db_params a) w)"
proof -
  have "get_default (config self) ''args'' (PDict []) = PDict a
        \<longrightarrow> make_conn self w = module_connect (engine self) (db_params a) w"
    by (simp add: make_conn_def)
  then show ?thesis
    by (simp add: set_db_params dict_get_db_params keys_db_params startswith_cp)
qed

theorem make_conn_passes_non_cp_args_witness:
  "make_conn \<lparr> name = PStr ''master'',
               config = [(''name'', PStr ''psycopg2''),
                         (''args'', PDict [(''cp_min'', PInt 5), (''host'', PStr ''db''),
                                           (''cp_openfun'', PObj 7), (''cp_max'', PInt 10)])],
               data_stores = [], engine = log_engine, pool = None \<rparr> []
   = (Inr 0, [Connected [(''host'', PStr ''db'')]])"
  using make_conn_passes_non_cp_args
    [of "[(''cp_min'', PInt 5), (''host'', PStr ''db''),
          (''cp_openfun'', PObj 7), (''cp_max'', PInt 10)]"
        "\<lparr> name = PStr ''master'',
               config = [(''name'', PStr ''psycopg2''),
                         (''args'', PDict [(''cp_min'', PInt 5), (''host'', PStr ''db''),
                                           (''cp_openfun'', PObj 7), (''cp_max'', PInt 10)])],
               data_stores = [], engine = log_engine, pool = None \<rparr>" "[]"]
  by (simp add: get_default_def dict_get_def db_params_def startswith_def log_engine_def
      log_connect_def)

subsection \<open>The pool\<close>



lemma get_pool_Inl:
  "get_pool CP reactor (self, w) = (Inl e, self', w') \<Longrightarrow> self' = self"
  by (auto simp: get_pool_def split: option.splits pyval.splits if_splits prod.splits sum.splits)

lemma get_pool_construct:
  assumes "pool self = None" "dict_get (config self) ''name'' = Some n"
    "get_default (config self) ''args'' (PDict []) = PDict a" "''cp_reactor'' \<notin> keys a"
  shows "get_pool CP reactor (self, w) =
     (case CP n reactor a w of
        (Inl e, w') \<Rightarrow> (Inl e, self, w')
      | (Inr p, w') \<Rightarrow> (Inr p, self\<lparr> pool := Some p \<rparr>, w'))"
  using assms by (simp add: get_pool_def)



text \<open>
  C7.  A call of \<^verbatim>\<open>get_pool\<close> that raises leaves the entity as it was, whatever the
  cause.  When the pool constructor raises, \<^verbatim>\<open>get_pool\<close> raises the same exception
  and the pool stays absent; the next call of \<^verbatim>\<open>get_pool\<close> calls the constructor
  again, and stores the pool if this time it succeeds.
\<close>

theorem get_pool_failure_retries:
  "(get_pool CP reactor (self, w) = (Inl e, self', w') \<longrightarrow> self' = self)
   \<and> (pool self = None \<and> dict_get (config self) ''name'' = Some n
        \<and> get_default (config self) ''args'' (PDict []) = PDict a
        \<and> ''cp_reactor'' \<notin> keys a \<and> CP n reactor a w = (Inl e, w')
      \<longrightarrow> get_pool CP reactor (self, w) = (Inl e, self, w')
          \<and> (\<forall>CP2 reactor2 w2. get_pool CP2 reactor2 (self, w2) =
               (case CP2 n reactor2 a w2 of
                  (Inl e2, w3) \<Rightarrow> (Inl e2, self, w3)
                | (Inr p, w3) \<Rightarrow> (Inr p, self\<lparr> pool := Some p \<rparr>, w3))))"
  using get_pool_Inl [of CP reactor self w e self' w']
  by (auto simp: get_pool_construct)

theorem get_pool_failure_retries_witness:
  "get_pool flaky_ConnectionPool (PObj 1) (sqlite_entity, [])
     = (Inl (Raised ''OperationalError''), sqlite_entity,
        [PoolCreated (PStr ''sqlite3'') (PObj 1)
             [(''cp_min'', PInt 1), (''cp_max'', PInt 1),
              (''check_same_thread'', PBool False), (''cp_openfun'', PObj 7)]])
   \<and> get_pool flaky_ConnectionPool (PObj 1)
        (sqlite_entity,
         [PoolCreated (PStr ''sqlite3'') (PObj 1)
             [(''cp_min'', PInt 1), (''cp_max'', PInt 1),
              (''check_same_thread'', PBool False), (''cp_openfun'', PObj 7)]])
     = (Inr 1, sqlite_entity\<lparr> pool := Some 1 \<rparr>,
        [PoolCreated (PStr ''sqlite3'') (PObj 1)
             [(''cp_min'', PInt 1), (''cp_max'', PInt 1),
              (''check_same_thread'', PBool False), (''cp_openfun'', PObj 7)],
         PoolCreated (PStr ''sqlite3'') (PObj 1)
             [(''cp_min'', PInt 1), (''cp_max'', PInt 1),
              (''check_same_thread'', PBool False), (''cp_openfun'', PObj 7)]])"
proof -
  let ?a = "[(''cp_min'', PInt 1), (''cp_max'', PInt 1),
              (''check_same_thread'', PBool False), (''cp_openfun'', PObj 7)]"
  let ?w = "[PoolCreated (PStr ''sqlite3'') (PObj 1) ?a]"
  have h: "pool sqlite_entity = None" "dict_get (config sqlite_entity) ''name'' = Some (PStr ''sqlite3'')"
    "get_default (config sqlite_entity) ''args'' (PDict []) = PDict ?a"
    "''cp_reactor'' \<notin> keys ?a"
    "flaky_ConnectionPool (PStr ''sqlite3'') (PObj 1) ?a [] = (Inl (Raised ''OperationalError''), ?w)"
    by (simp_all add: sqlite_entity_def dict_get_def get_default_def keys_def
        flaky_ConnectionPool_def)
  from get_pool_failure_retries
    [of flaky_ConnectionPool "PObj 1" sqlite_entity "[]" "Raised ''OperationalError''"
        sqlite_entity ?w "PStr ''sqlite3''" ?a] h
  have 1: "get_pool flaky_ConnectionPool (PObj 1) (sqlite_entity, [])
            = (Inl (Raised ''OperationalError''), sqlite_entity, ?w)"
    and 2: "\<forall>CP2 reactor2 w2. get_pool CP2 reactor2 (sqlite_entity, w2) =
               (case CP2 (PStr ''sqlite3'') reactor2 ?a w2 of
                  (Inl e2, w3) \<Rightarrow> (Inl e2, sqlite_entity, w3)
                | (Inr p, w3) \<Rightarrow> (Inr p, sqlite_entity\<lparr> pool := Some p \<rparr>, w3))"
    by blast+
  have "get_pool flaky_ConnectionPool (PObj 1) (sqlite_entity, ?w)
      = (Inr 1, sqlite_entity\<lparr> pool := Some 1 \<rparr>, ?w @ ?w)"
    by (simp add: 2 flaky_ConnectionPool_def)
  with 1 show ?thesis by simp
qed

subsection \<open>Construction\<close>

lemma setdefault_args_update_Inr:
  assumes "setdefault_args_update d = Inr d'"
  shows "\<exists>a. get_default d ''args'' (PDict []) = PDict a
           \<and> (dict_get d ''args'' = None \<or> dict_get d ''args'' = Some (PDict a))
           \<and> d' = setitem d ''args'' (PDict (dict_update a sqlite3_pooling))"
  using assms
  by (auto simp: setdefault_args_update_def get_default_def split: option.splits pyval.splits)

lemma setdefault_args_update_ok:
  assumes "get_default d ''args'' (PDict []) = PDict a"
  shows "setdefault_args_update d = Inr (setitem d ''args'' (PDict (dict_update a sqlite3_pooling)))"
  using assms
  by (auto simp: setdefault_args_update_def get_default_def split: option.splits pyval.splits)

lemma init_Inr:
  assumes "DatabaseConnectionConfig_init create_engine nm db_config stores = Inr ent"
  shows "\<exists>n cfg a. dict_get db_config ''name'' = Some n
           \<and> (n = PStr ''sqlite3'' \<or> n = PStr ''psycopg2'')
           \<and> (if n = PStr ''sqlite3'' then setdefault_args_update db_config else Inr db_config)
               = Inr cfg
           \<and> create_engine cfg = Inr (engine ent)
           \<and> dict_get cfg ''args'' = Some (PDict a)
           \<and> ent = \<lparr> name = nm,
                      config = setitem cfg ''args''
                        (PDict (setitem a ''cp_openfun'' (on_new_connection (engine ent)))),
                      data_stores = stores, engine = engine ent, pool = None \<rparr>"
proof (cases "dict_get db_config ''name''")
  case None
  with assms show ?thesis by (simp add: DatabaseConnectionConfig_init_def)
next
  case (Some n)
  with assms have n: "n = PStr ''sqlite3'' \<or> n = PStr ''psycopg2''"
    by (auto simp: DatabaseConnectionConfig_init_def split: if_splits)
  obtain cfg where cfg:
    "(if n = PStr ''sqlite3'' then setdefault_args_update db_config else Inr db_config) = Inr cfg"
    using assms Some n
    by (cases "if n = PStr ''sqlite3'' then setdefault_args_update db_config else Inr db_config")
       (auto simp: DatabaseConnectionConfig_init_def)
  obtain eng where eng: "create_engine cfg = Inr eng"
    using assms Some n cfg
    by (cases "create_engine cfg") (auto simp: DatabaseConnectionConfig_init_def)
  from assms Some n cfg eng obtain a where a: "dict_get cfg ''args'' = Some (PDict a)"
    and ent: "ent = \<lparr> name = nm,
                      config = setitem cfg ''args''
                        (PDict (setitem a ''cp_openfun'' (on_new_connection eng))),
                      data_stores = stores, engine = eng, pool = None \<rparr>"
    by (auto simp: DatabaseConnectionConfig_init_def split: option.splits pyval.splits)
  from ent have "engine ent = eng" by simp
  with Some n cfg eng a ent show ?thesis by auto
qed

lemma init_sqlite3_Inr:
  assumes "dict_get db_config ''name'' = Some (PStr ''sqlite3'')"
    and "DatabaseConnectionConfig_init create_engine nm db_config stores = Inr ent"
  shows "\<exists>a. get_default db_config ''args'' (PDict []) = PDict a
           \<and> dict_get (config ent) ''args'' =
               Some (PDict (setitem (dict_update a sqlite3_pooling) ''cp_openfun''
                              (on_new_connection (engine ent))))"
proof -
  from init_Inr [OF assms(2)] assms(1) obtain cfg a' where
    cfg: "setdefault_args_update db_config = Inr cfg"
    and a': "dict_get cfg ''args'' = Some (PDict a')"
    and ent: "config ent = setitem cfg ''args''
                (PDict (setitem a' ''cp_openfun'' (on_new_connection (engine ent))))"
    by (metis (no_types, lifting) DatabaseConnectionConfig.select_convs(2) option.inject)
  from setdefault_args_update_Inr [OF cfg] obtain a where
    a: "get_default db_config ''args'' (PDict []) = PDict a"
    and cfg': "cfg = setitem db_config ''args'' (PDict (dict_update a sqlite3_pooling))"
    by blast
  from a' cfg' have "a' = dict_update a sqlite3_pooling"
    by (simp add: dict_get_setitem)
  with a ent show ?thesis by (simp add: dict_get_setitem)
qed

lemma set_databasepath_Inr:
  assumes "set_databasepath abspath p self = Inr self'"
  shows "\<exists>d q. database_config self = PDict d
           \<and> (if p \<noteq> PStr '':memory:'' then abspath p else Inr p) = Inr q
           \<and> (self' = self
               \<or> (get_default d ''name'' PNone = PStr ''sqlite3'' \<and> q \<noteq> PNone
                   \<and> (\<exists>a. dict_get d ''args'' = Some (PDict a)
                        \<and> self' = self\<lparr> database_config :=
                             PDict (setitem d ''args'' (PDict (setitem a ''database'' q))) \<rparr>)))"
proof -
  obtain q where q: "(if p \<noteq> PStr '':memory:'' then abspath p else Inr p) = Inr q"
    using assms
    by (cases "if p \<noteq> PStr '':memory:'' then abspath p else Inr p")
       (simp_all add: set_databasepath_def)
  obtain d where d: "database_config self = PDict d"
    using assms q by (cases "database_config self") (simp_all add: set_databasepath_def)
  show ?thesis
    using assms q d
    by (auto simp: set_databasepath_def split: if_splits option.splits pyval.splits)
qed

lemma read_config_sqlite3_Inr:
  assumes "get_default cfg ''database'' PNone = PDict d
           \<or> get_default cfg ''database'' PNone = PNone
             \<and> d = [(''name'', PStr ''sqlite3''), (''args'', PDict [])]"
    and "get_default d ''name'' PNone = PStr ''sqlite3''"
    and "read_config parse_size abspath cfg = Inr dc"
  shows "\<exists>ecs d'. parse_size (get_default cfg ''event_cache_size'' (PStr ''10K'')) = Inr ecs
           \<and> setdefault_args_update d = Inr d'
           \<and> set_databasepath abspath (get_default cfg ''database_path'' PNone)
                \<lparr> event_cache_size = ecs, database_config = PDict d' \<rparr> = Inr dc"
proof -
  obtain ecs where ecs: "parse_size (get_default cfg ''event_cache_size'' (PStr ''10K'')) = Inr ecs"
    using assms(3)
    by (cases "parse_size (get_default cfg ''event_cache_size'' (PStr ''10K''))")
       (simp_all add: read_config_def)
  have dbc: "(if get_default cfg ''database'' PNone = PNone
              then PDict [(''name'', PStr ''sqlite3''), (''args'', PDict [])]
              else get_default cfg ''database'' PNone) = PDict d"
    using assms(1) by auto
  obtain d' where d': "setdefault_args_update d = Inr d'"
    using assms(2,3) ecs dbc
    by (cases "setdefault_args_update d") (simp_all add: read_config_def Let_def)
  show ?thesis
    using assms(2,3) ecs dbc d' by (simp add: read_config_def Let_def)
qed

text \<open>
  C1.  The statement \<^verbatim>\<open>setdefault("args", {}).update({"cp_min": 1, "cp_max": 1,
  "check_same_thread": False})\<close>, which both \<^verbatim>\<open>__init__\<close> and \<^verbatim>\<open>read_config\<close> run for
  the backend \<^verbatim>\<open>sqlite3\<close>, succeeds whenever \<^verbatim>\<open>args\<close> is missing or a dictionary; it
  sets \<^verbatim>\<open>cp_min\<close> and \<^verbatim>\<open>cp_max\<close> to 1 and \<^verbatim>\<open>check_same_thread\<close> to \<^verbatim>\<open>False\<close>,
  whatever the caller supplied under these keys, and leaves the value under every other
  key of \<^verbatim>\<open>args\<close> as the caller supplied it.  The same holds of the \<^verbatim>\<open>args\<close> of every
  entity constructed for \<^verbatim>\<open>sqlite3\<close>, where the later step of the constructor writes
  \<^verbatim>\<open>cp_openfun\<close> besides, and of every configuration \<^verbatim>\<open>read_config\<close> returns for
  \<^verbatim>\<open>sqlite3\<close> (from a given block or from the default one), where
  \<^verbatim>\<open>set_databasepath\<close> may write \<^verbatim>\<open>database\<close> besides.
\<close>

theorem sqlite3_forces_single_connection:
  "(get_default d ''args'' (PDict []) = PDict a \<longrightarrow>
      (\<exists>a'. setdefault_args_update d = Inr (setitem d ''args'' (PDict a'))
         \<and> dict_get a' ''cp_min'' = Some (PInt 1)
         \<and> dict_get a' ''cp_max'' = Some (PInt 1)
         \<and> dict_get a' ''check_same_thread'' = Some (PBool False)
         \<and> (\<forall>k. k \<notin> {''cp_min'', ''cp_max'', ''check_same_thread''}
                \<longrightarrow> dict_get a' k = dict_get a k)))
   \<and> (dict_get db_config ''name'' = Some (PStr ''sqlite3'')
        \<and> DatabaseConnectionConfig_init create_engine nm db_config stores = Inr ent \<longrightarrow>
      (\<exists>a0 a'. get_default db_config ''args'' (PDict []) = PDict a0
         \<and> dict_get (config ent) ''args'' = Some (PDict a')
         \<and> dict_get a' ''cp_min'' = Some (PInt 1)
         \<and> dict_get a' ''cp_max'' = Some (PInt 1)
         \<and> dict_get a' ''check_same_thread'' = Some (PBool False)
         \<and> (\<forall>k. k \<notin> {''cp_min'', ''cp_max'', ''check_same_thread'', ''cp_openfun''}
                \<longrightarrow> dict_get a' k = dict_get a0 k)))
   \<and> ((get_default cfg ''database'' PNone = PDict dbc
         \<or> get_default cfg ''database'' PNone = PNone
           \<and> dbc = [(''name'', PStr ''sqlite3''), (''args'', PDict [])])
        \<and> get_default dbc ''name'' PNone = PStr ''sqlite3''
        \<and> read_config parse_size abspath cfg = Inr dc \<longrightarrow>
      (\<exists>a0 a' d'. get_default dbc ''args'' (PDict []) = PDict a0
         \<and> database_config dc = PDict d'
         \<and> dict_get d' ''args'' = Some (PDict a')
         \<and> dict_get a' ''cp_min'' = Some (PInt 1)
         \<and> dict_get a' ''cp_max'' = Some (PInt 1)
         \<and> dict_get a' ''check_same_thread'' = Some (PBool False)
         \<and> (\<forall>k. k \<notin> {''cp_min'', ''cp_max'', ''check_same_thread'', ''database''}
                \<longrightarrow> dict_get a' k = dict_get a0 k)))"
proof (intro conjI impI)
  assume "get_default d ''args'' (PDict []) = PDict a"
  then have "setdefault_args_update d
               = Inr (setitem d ''args'' (PDict (dict_update a sqlite3_pooling)))"
    by (rule setdefault_args_update_ok)
  then show "\<exists>a'. setdefault_args_update d = Inr (setitem d ''args'' (PDict a'))
         \<and> dict_get a' ''cp_min'' = Some (PInt 1)
         \<and> dict_get a' ''cp_max'' = Some (PInt 1)
         \<and> dict_get a' ''check_same_thread'' = Some (PBool False)
         \<and> (\<forall>k. k \<notin> {''cp_min'', ''cp_max'', ''check_same_thread''}
                \<longrightarrow> dict_get a' k = dict_get a k)"
    by (intro exI [of _ "dict_update a sqlite3_pooling"]) (simp add: dict_get_pooling)
next
  assume "dict_get db_config ''name'' = Some (PStr ''sqlite3'')
        \<and> DatabaseConnectionConfig_init create_engine nm db_config stores = Inr ent"
  then obtain a0 where a0: "get_default db_config ''args'' (PDict []) = PDict a0"
    and ent: "dict_get (config ent) ''args'' =
               Some (PDict (setitem (dict_update a0 sqlite3_pooling) ''cp_openfun''
                              (on_new_connection (engine ent))))"
    using init_sqlite3_Inr by blast
  show "\<exists>a0 a'. get_default db_config ''args'' (PDict []) = PDict a0
         \<and> dict_get (config ent) ''args'' = Some (PDict a')
         \<and> dict_get a' ''cp_min'' = Some (PInt 1)
         \<and> dict_get a' ''cp_max'' = Some (PInt 1)
         \<and> dict_get a' ''check_same_thread'' = Some (PBool False)
         \<and> (\<forall>k. k \<notin> {''cp_min'', ''cp_max'', ''check_same_thread'', ''cp_openfun''}
                \<longrightarrow> dict_get a' k = dict_get a0 k)"
    using a0 ent
    by (intro exI [of _ a0] exI [of _ "setitem (dict_update a0 sqlite3_pooling) ''cp_openfun''
                              (on_new_connection (engine ent))"])
       (simp add: dict_get_pooling dict_get_setitem)
next
  assume h: "(get_default cfg ''database'' PNone = PDict dbc
         \<or> get_default cfg ''database'' PNone = PNone
           \<and> dbc = [(''name'', PStr ''sqlite3''), (''args'', PDict [])])
        \<and> get_default dbc ''name'' PNone = PStr ''sqlite3''
        \<and> read_config parse_size abspath cfg = Inr dc"
  then obtain ecs d1 where d1: "setdefault_args_update dbc = Inr d1"
    and sp: "set_databasepath abspath (get_default cfg ''database_path'' PNone)
                \<lparr> event_cache_size = ecs, database_config = PDict d1 \<rparr> = Inr dc"
    using read_config_sqlite3_Inr [of cfg dbc parse_size abspath dc] by blast
  from setdefault_args_update_Inr [OF d1] obtain a0 where
    a0: "get_default dbc ''args'' (PDict []) = PDict a0"
    and d1': "d1 = setitem dbc ''args'' (PDict (dict_update a0 sqlite3_pooling))"
    by blast
  let ?a1 = "dict_update a0 sqlite3_pooling"
  from set_databasepath_Inr [OF sp] d1'
  have "database_config dc = PDict d1
        \<or> (\<exists>q. database_config dc = PDict (setitem d1 ''args'' (PDict (setitem ?a1 ''database'' q))))"
    by (auto simp: dict_get_setitem)
  then consider (same) "database_config dc = PDict d1"
    | (path) q where
        "database_config dc = PDict (setitem d1 ''args'' (PDict (setitem ?a1 ''database'' q)))"
    by blast
  then obtain a' d' where dc: "database_config dc = PDict d'"
    and d': "dict_get d' ''args'' = Some (PDict a')"
    and a': "a' = ?a1 \<or> (\<exists>q. a' = setitem ?a1 ''database'' q)"
  proof cases
    case same
    with d1' that [of d1 ?a1] show ?thesis by (simp add: dict_get_setitem)
  next
    case path
    with that [of "setitem d1 ''args'' (PDict (setitem ?a1 ''database'' q))"
        "setitem ?a1 ''database'' q"]
    show ?thesis by (auto simp: dict_get_setitem)
  qed
  from a' have "dict_get a' ''cp_min'' = Some (PInt 1)"
    "dict_get a' ''cp_max'' = Some (PInt 1)"
    "dict_get a' ''check_same_thread'' = Some (PBool False)"
    "\<forall>k. k \<notin> {''cp_min'', ''cp_max'', ''check_same_thread'', ''database''}
         \<longrightarrow> dict_get a' k = dict_get a0 k"
    by (auto simp: dict_get_pooling dict_get_setitem)
  with a0 dc d' show "\<exists>a0 a' d'. get_default dbc ''args'' (PDict []) = PDict a0
         \<and> database_config dc = PDict d'
         \<and> dict_get d' ''args'' = Some (PDict a')
         \<and> dict_get a' ''cp_min'' = Some (PInt 1)
         \<and> dict_get a' ''cp_max'' = Some (PInt 1)
         \<and> dict_get a' ''check_same_thread'' = Some (PBool False)
         \<and> (\<forall>k. k \<notin> {''cp_min'', ''cp_max'', ''check_same_thread'', ''database''}
                \<longrightarrow> dict_get a' k = dict_get a0 k)"
    by blast
qed

theorem sqlite3_forces_single_connection_witness:
  "setdefault_args_update tuned_sqlite_config =
     Inr [(''name'', PStr ''sqlite3''),
          (''args'', PDict [(''database'', PStr ''/data/homeserver.db''),
                            (''cp_min'', PInt 1), (''cp_max'', PInt 1),
                            (''cp_openfun'', PObj 99), (''check_same_thread'', PBool False)])]
   \<and> DatabaseConnectionConfig_init log_create_engine (PStr ''master'') tuned_sqlite_config
        [PStr ''main''] = Inr tuned_sqlite_entity
   \<and> read_config plain_parse_size posix_abspath [(''database'', PDict tuned_sqlite_config)] =
     Inr \<lparr> event_cache_size = PInt 10240,
           database_config = PDict
             [(''name'', PStr ''sqlite3''),
              (''args'', PDict [(''database'', PStr ''/data/homeserver.db''),
                                (''cp_min'', PInt 1), (''cp_max'', PInt 1),
                                (''cp_openfun'', PObj 99),
                                (''check_same_thread'', PBool False)])] \<rparr>
   \<and> dict_get tuned_sqlite_args ''cp_min'' = Some (PInt 1)
   \<and> dict_get tuned_sqlite_args ''cp_max'' = Some (PInt 1)
   \<and> dict_get tuned_sqlite_args ''check_same_thread'' = Some (PBool False)
   \<and> dict_get tuned_sqlite_args ''database'' = Some (PStr ''/data/homeserver.db'')"
proof -
  let ?a = "[(''database'', PStr ''/data/homeserver.db''),
             (''cp_min'', PInt 5), (''cp_max'', PInt 5), (''cp_openfun'', PObj 99)]"
  let ?dc = "\<lparr> event_cache_size = PInt 10240,
           database_config = PDict
             [(''name'', PStr ''sqlite3''),
              (''args'', PDict [(''database'', PStr ''/data/homeserver.db''),
                                (''cp_min'', PInt 1), (''cp_max'', PInt 1),
                                (''cp_openfun'', PObj 99),
                                (''check_same_thread'', PBool False)])] \<rparr>"
  have args: "get_default tuned_sqlite_config ''args'' (PDict []) = PDict ?a"
    and nm: "dict_get tuned_sqlite_config ''name'' = Some (PStr ''sqlite3'')"
      "get_default tuned_sqlite_config ''name'' PNone = PStr ''sqlite3''"
    and db: "get_default [(''database'', PDict tuned_sqlite_config)] ''database'' PNone
             = PDict tuned_sqlite_config"
    by (simp_all add: tuned_sqlite_config_def get_default_def dict_get_def)
  have init: "DatabaseConnectionConfig_init log_create_engine (PStr ''master'')
      tuned_sqlite_config [PStr ''main''] = Inr tuned_sqlite_entity"
    by (simp add: DatabaseConnectionConfig_init_def dict_get_def setdefault_args_update_def
      setitem_def dict_update_def sqlite3_pooling_def log_create_engine_def
      tuned_sqlite_config_def tuned_sqlite_entity_def tuned_sqlite_args_def log_engine_def)
  have rc: "read_config plain_parse_size posix_abspath
      [(''database'', PDict tuned_sqlite_config)] = Inr ?dc"
    by (simp add: read_config_def get_default_def dict_get_def plain_parse_size_def
        tuned_sqlite_config_def setdefault_args_update_def setitem_def dict_update_def
        sqlite3_pooling_def set_databasepath_def posix_abspath_def)
  from sqlite3_forces_single_connection
    [of tuned_sqlite_config ?a tuned_sqlite_config log_create_engine "PStr ''master''"
        "[PStr ''main'']" tuned_sqlite_entity "[(''database'', PDict tuned_sqlite_config)]"
        tuned_sqlite_config plain_parse_size posix_abspath ?dc]
    args nm db init rc
  have "\<exists>a'. dict_get (config tuned_sqlite_entity) ''args'' = Some (PDict a')
         \<and> dict_get a' ''cp_min'' = Some (PInt 1)
         \<and> dict_get a' ''cp_max'' = Some (PInt 1)
         \<and> dict_get a' ''check_same_thread'' = Some (PBool False)
         \<and> dict_get a' ''database'' = dict_get ?a ''database''"
    by fastforce
  then have "dict_get tuned_sqlite_args ''cp_min'' = Some (PInt 1)
   \<and> dict_get tuned_sqlite_args ''cp_max'' = Some (PInt 1)
   \<and> dict_get tuned_sqlite_args ''check_same_thread'' = Some (PBool False)
   \<and> dict_get tuned_sqlite_args ''database'' = Some (PStr ''/data/homeserver.db'')"
    by (simp add: tuned_sqlite_entity_def dict_get_def)
  moreover have "setdefault_args_update tuned_sqlite_config =
     Inr [(''name'', PStr ''sqlite3''),
          (''args'', PDict [(''database'', PStr ''/data/homeserver.db''),
                            (''cp_min'', PInt 1), (''cp_max'', PInt 1),
                            (''cp_openfun'', PObj 99), (''check_same_thread'', PBool False)])]"
    by (simp add: tuned_sqlite_config_def setdefault_args_update_def dict_get_def setitem_def
        dict_update_def sqlite3_pooling_def)
  ultimately show ?thesis using init rc by simp
qed

lemma get_pool_keeps_config:
  assumes "get_pool CP reactor (self, w) = (res, self', w')"
  shows "config self' = config self" and "engine self' = engine self"
  using assms
  by (auto simp: get_pool_def split: option.splits pyval.splits if_splits prod.splits sum.splits)

lemma init_name_kept:
  assumes "DatabaseConnectionConfig_init create_engine nm db_config stores = Inr ent"
  shows "dict_get (config ent) ''name'' = dict_get db_config ''name''"
proof -
  from init_Inr [OF assms] obtain n cfg a where
    cfg: "(if n = PStr ''sqlite3'' then setdefault_args_update db_config else Inr db_config)
               = Inr cfg"
    and ent: "ent = \<lparr> name = nm,
                      config = setitem cfg ''args''
                        (PDict (setitem a ''cp_openfun'' (on_new_connection (engine ent)))),
                      data_stores = stores, engine = engine ent, pool = None \<rparr>"
    by blast
  have "dict_get cfg ''name'' = dict_get db_config ''name''"
  proof (cases "n = PStr ''sqlite3''")
    case True
    with cfg setdefault_args_update_Inr [of db_config cfg] show ?thesis
      by (auto simp: dict_get_setitem)
  next
    case False
    with cfg show ?thesis by simp
  qed
  moreover from ent have "config ent = setitem cfg ''args''
                        (PDict (setitem a ''cp_openfun'' (on_new_connection (engine ent))))"
    by (metis DatabaseConnectionConfig.select_convs(2))
  ultimately show ?thesis by (simp add: dict_get_setitem)
qed

lemma init_cp_openfun:
  assumes "DatabaseConnectionConfig_init create_engine nm db_config stores = Inr ent"
  shows "\<exists>n cfg a. dict_get db_config ''name'' = Some n
           \<and> (if n = PStr ''sqlite3'' then setdefault_args_update db_config
                else Inr db_config) = Inr cfg
           \<and> create_engine cfg = Inr (engine ent)
           \<and> dict_get (config ent) ''args'' = Some (PDict a)
           \<and> dict_get a ''cp_openfun'' = Some (on_new_connection (engine ent))"
proof -
  from init_Inr [OF assms] obtain n cfg a where
    n: "dict_get db_config ''name'' = Some n"
    and cfg: "(if n = PStr ''sqlite3'' then setdefault_args_update db_config
               else Inr db_config) = Inr cfg"
    and eng: "create_engine cfg = Inr (engine ent)"
    and ent: "ent = \<lparr> name = nm,
                      config = setitem cfg ''args''
                        (PDict (setitem a ''cp_openfun'' (on_new_connection (engine ent)))),
                      data_stores = stores, engine = engine ent, pool = None \<rparr>"
    by blast
  from ent have "config ent = setitem cfg ''args''
                        (PDict (setitem a ''cp_openfun'' (on_new_connection (engine ent))))"
    by (metis DatabaseConnectionConfig.select_convs(2))
  then have "dict_get (config ent) ''args''
      = Some (PDict (setitem a ''cp_openfun'' (on_new_connection (engine ent))))"
    by (simp add: dict_get_setitem)
  with n cfg eng show ?thesis
    by (intro exI [of _ n] exI [of _ cfg]
        exI [of _ "setitem a ''cp_openfun'' (on_new_connection (engine ent))"])
       (simp add: dict_get_setitem)
qed

text \<open>
  C4, as stated, fails for the bare connection: the entity constructed from a
  \<^verbatim>\<open>psycopg2\<close> configuration has \<^verbatim>\<open>cp_openfun\<close> bound, but its \<^verbatim>\<open>make_conn\<close> is one
  call of the engine's \<^verbatim>\<open>module.connect\<close> on arguments that do not hold the hook, and
  nothing else happens in the world: the connection it returns has received no session
  initialization.
\<close>

theorem bare_connection_gets_no_hook:
  "DatabaseConnectionConfig_init log_create_engine (PStr ''master'') postgres_config
     [PStr ''main''] = Inr postgres_entity
   \<and> dict_get (config postgres_entity) ''args'' =
       Some (PDict [(''host'', PStr ''db''), (''cp_max'', PInt 10), (''cp_openfun'', PObj 7)])
   \<and> make_conn postgres_entity [] = (Inr 0, [Connected [(''host'', PStr ''db'')]])
   \<and> dict_get [(''host'', PStr ''db'')] ''cp_openfun'' = None"
  by (simp add: DatabaseConnectionConfig_init_def dict_get_def setitem_def
      log_create_engine_def postgres_config_def postgres_entity_def log_engine_def
      make_conn_def get_default_def db_params_def startswith_def log_connect_def)

text \<open>
  C4, amended.  Whenever the constructor returns an entity, the engine of the entity is
  the one \<^verbatim>\<open>create_engine\<close> returned for \<^verbatim>\<open>db_config\<close> (after the merge of the pooling
  parameters, for \<^verbatim>\<open>sqlite3\<close>), and \<^verbatim>\<open>args["cp_openfun"]\<close> of its configuration is
  that engine's \<^verbatim>\<open>on_new_connection\<close>, whatever the caller had put under this key.
  \<^verbatim>\<open>get_pool\<close> hands these \<^verbatim>\<open>args\<close>, the binding among them, to the pool constructor.
  \<^verbatim>\<open>make_conn\<close> is one call of the engine's \<^verbatim>\<open>module.connect\<close> on arguments that do
  not hold \<^verbatim>\<open>cp_openfun\<close>, and it does not call the hook: the binding reaches the
  pooled connections only.  No call of \<^verbatim>\<open>get_pool\<close>, whatever it returns, changes
  the configuration or the engine of an entity; \<^verbatim>\<open>make_conn\<close> assigns nothing to the
  entity.
\<close>

theorem cp_openfun_bound_to_engine_hook:
  "(DatabaseConnectionConfig_init create_engine nm db_config stores = Inr ent \<longrightarrow>
      (\<exists>n cfg a. dict_get db_config ''name'' = Some n
         \<and> (if n = PStr ''sqlite3'' then setdefault_args_update db_config
              else Inr db_config) = Inr cfg
         \<and> create_engine cfg = Inr (engine ent)
         \<and> dict_get (config ent) ''name'' = Some n
         \<and> dict_get (config ent) ''args'' = Some (PDict a)
         \<and> dict_get a ''cp_openfun'' = Some (on_new_connection (engine ent))
         \<and> (\<forall>CP reactor w. ''cp_reactor'' \<notin> keys a \<longrightarrow>
               get_pool CP reactor (ent, w) =
                 (case CP n reactor a w of
                    (Inl e, w') \<Rightarrow> (Inl e, ent, w')
                  | (Inr p, w') \<Rightarrow> (Inr p, ent\<lparr> pool := Some p \<rparr>, w')))
         \<and> (\<forall>w. make_conn ent w = module_connect (engine ent) (db_params a) w)
         \<and> ''cp_openfun'' \<notin> keys (db_params a)))
   \<and> (get_pool CP reactor (self, w) = (res, self', w') \<longrightarrow>
        config self' = config self \<and> engine self' = engine self)"
proof (intro conjI impI)
  assume init: "DatabaseConnectionConfig_init create_engine nm db_config stores = Inr ent"
  from init_cp_openfun [OF init] obtain n cfg a where
    n0: "dict_get db_config ''name'' = Some n"
    and cfg: "(if n = PStr ''sqlite3'' then setdefault_args_update db_config
               else Inr db_config) = Inr cfg"
    and eng: "create_engine cfg = Inr (engine ent)"
    and a: "dict_get (config ent) ''args'' = Some (PDict a)"
    and hook: "dict_get a ''cp_openfun'' = Some (on_new_connection (engine ent))"
    by blast
  from n0 init_name_kept [OF init] have n: "dict_get (config ent) ''name'' = Some n"
    by simp
  from init_Inr [OF init] have none: "pool ent = None"
    by (metis DatabaseConnectionConfig.select_convs(5))
  from a have a': "get_default (config ent) ''args'' (PDict []) = PDict a"
    by (simp add: get_default_def)
  have pooled: "\<forall>CP reactor w. ''cp_reactor'' \<notin> keys a \<longrightarrow>
               get_pool CP reactor (ent, w) =
                 (case CP n reactor a w of
                    (Inl e, w') \<Rightarrow> (Inl e, ent, w')
                  | (Inr p, w') \<Rightarrow> (Inr p, ent\<lparr> pool := Some p \<rparr>, w'))"
    using get_pool_construct [OF none n a'] by blast
  have bare: "\<forall>w. make_conn ent w = module_connect (engine ent) (db_params a) w"
    using a' by (simp add: make_conn_def)
  have stripped: "''cp_openfun'' \<notin> keys (db_params a)"
    by (simp add: keys_db_params startswith_cp)
  from n0 cfg eng n a hook pooled bare stripped
  show "\<exists>n cfg a. dict_get db_config ''name'' = Some n
         \<and> (if n = PStr ''sqlite3'' then setdefault_args_update db_config
              else Inr db_config) = Inr cfg
         \<and> create_engine cfg = Inr (engine ent)
         \<and> dict_get (config ent) ''name'' = Some n
         \<and> dict_get (config ent) ''args'' = Some (PDict a)
         \<and> dict_get a ''cp_openfun'' = Some (on_new_connection (engine ent))
         \<and> (\<forall>CP reactor w. ''cp_reactor'' \<notin> keys a \<longrightarrow>
               get_pool CP reactor (ent, w) =
                 (case CP n reactor a w of
                    (Inl e, w') \<Rightarrow> (Inl e, ent, w')
                  | (Inr p, w') \<Rightarrow> (Inr p, ent\<lparr> pool := Some p \<rparr>, w')))
         \<and> (\<forall>w. make_conn ent w = module_connect (engine ent) (db_params a) w)
         \<and> ''cp_openfun'' \<notin> keys (db_params a)"
    by blast
next
  assume "get_pool CP reactor (self, w) = (res, self', w')"
  then show "config self' = config self" by (rule get_pool_keeps_config)
next
  assume "get_pool CP reactor (self, w) = (res, self', w')"
  then show "engine self' = engine self" by (rule get_pool_keeps_config)
qed

theorem cp_openfun_bound_to_engine_hook_witness:
  "DatabaseConnectionConfig_init log_create_engine (PStr ''master'') tuned_sqlite_config
     [PStr ''main''] = Inr tuned_sqlite_entity
   \<and> get_default tuned_sqlite_config ''args'' PNone =
       PDict [(''database'', PStr ''/data/homeserver.db''),
              (''cp_min'', PInt 5), (''cp_max'', PInt 5), (''cp_openfun'', PObj 99)]
   \<and> log_create_engine
        [(''name'', PStr ''sqlite3''),
         (''args'', PDict [(''database'', PStr ''/data/homeserver.db''),
                           (''cp_min'', PInt 1), (''cp_max'', PInt 1),
                           (''cp_openfun'', PObj 99), (''check_same_thread'', PBool False)])]
       = Inr (engine tuned_sqlite_entity)
   \<and> on_new_connection (engine tuned_sqlite_entity) = PObj 7
   \<and> dict_get (config tuned_sqlite_entity) ''args'' = Some (PDict tuned_sqlite_args)
   \<and> dict_get tuned_sqlite_args ''cp_openfun'' = Some (PObj 7)
   \<and> get_pool log_ConnectionPool (PObj 1) (tuned_sqlite_entity, [])
       = (Inr 0, tuned_sqlite_entity\<lparr> pool := Some 0 \<rparr>,
          [PoolCreated (PStr ''sqlite3'') (PObj 1) tuned_sqlite_args])
   \<and> config (tuned_sqlite_entity\<lparr> pool := Some 0 \<rparr>) = config tuned_sqlite_entity
   \<and> make_conn tuned_sqlite_entity [] =
       (Inr 0, [Connected (db_params tuned_sqlite_args)])
   \<and> dict_get (db_params tuned_sqlite_args) ''cp_openfun'' = None"
proof -
  have init: "DatabaseConnectionConfig_init log_create_engine (PStr ''master'')
      tuned_sqlite_config [PStr ''main''] = Inr tuned_sqlite_entity"
    by (simp add: DatabaseConnectionConfig_init_def dict_get_def setdefault_args_update_def
      setitem_def dict_update_def sqlite3_pooling_def log_create_engine_def
      tuned_sqlite_config_def tuned_sqlite_entity_def tuned_sqlite_args_def log_engine_def)
  have gp: "get_pool log_ConnectionPool (PObj 1) (tuned_sqlite_entity, [])
       = (Inr 0, tuned_sqlite_entity\<lparr> pool := Some 0 \<rparr>,
          [PoolCreated (PStr ''sqlite3'') (PObj 1) tuned_sqlite_args])"
    by (simp add: get_pool_def tuned_sqlite_entity_def tuned_sqlite_args_def dict_get_def
        get_default_def keys_def log_ConnectionPool_def)
  have args: "dict_get (config tuned_sqlite_entity) ''args'' = Some (PDict tuned_sqlite_args)"
    and eng: "engine tuned_sqlite_entity = log_engine"
    by (simp_all add: tuned_sqlite_entity_def dict_get_def)
  from cp_openfun_bound_to_engine_hook
    [of log_create_engine "PStr ''master''" tuned_sqlite_config "[PStr ''main'']"
        tuned_sqlite_entity log_ConnectionPool "PObj 1" tuned_sqlite_entity "[]" "Inr 0"
        "tuned_sqlite_entity\<lparr> pool := Some 0 \<rparr>"
        "[PoolCreated (PStr ''sqlite3'') (PObj 1) tuned_sqlite_args]"] init gp
  obtain a where a: "dict_get (config tuned_sqlite_entity) ''args'' = Some (PDict a)"
    and hook: "dict_get a ''cp_openfun'' = Some (on_new_connection (engine tuned_sqlite_entity))"
    and bare: "\<forall>w. make_conn tuned_sqlite_entity w =
                 module_connect (engine tuned_sqlite_entity) (db_params a) w"
    and stripped: "''cp_openfun'' \<notin> keys (db_params a)"
    and kept: "config (tuned_sqlite_entity\<lparr> pool := Some 0 \<rparr>) = config tuned_sqlite_entity"
    by blast
  from a args have a_eq: "a = tuned_sqlite_args" by simp
  from stripped have none: "dict_get (db_params a) ''cp_openfun'' = None"
    by (simp add: dict_get_def keys_def map_of_eq_None_iff)
  from bare have mc: "make_conn tuned_sqlite_entity [] = (Inr 0, [Connected (db_params a)])"
    by (simp add: eng log_engine_def log_connect_def)
  have rest: "get_default tuned_sqlite_config ''args'' PNone =
       PDict [(''database'', PStr ''/data/homeserver.db''),
              (''cp_min'', PInt 5), (''cp_max'', PInt 5), (''cp_openfun'', PObj 99)]"
    "log_create_engine
        [(''name'', PStr ''sqlite3''),
         (''args'', PDict [(''database'', PStr ''/data/homeserver.db''),
                           (''cp_min'', PInt 1), (''cp_max'', PInt 1),
                           (''cp_openfun'', PObj 99), (''check_same_thread'', PBool False)])]
       = Inr (engine tuned_sqlite_entity)"
    "on_new_connection (engine tuned_sqlite_entity) = PObj 7"
    by (simp_all add: tuned_sqlite_config_def get_default_def dict_get_def
        log_create_engine_def eng log_engine_def)
  from hook rest(3) a_eq have "dict_get tuned_sqlite_args ''cp_openfun'' = Some (PObj 7)"
    by simp
  with init rest args gp kept mc none a_eq show ?thesis by simp
qed

text \<open>
  C8, amended.  For an entity constructed for \<^verbatim>\<open>sqlite3\<close>, \<^verbatim>\<open>make_conn\<close> calls the
  engine's \<^verbatim>\<open>module.connect\<close> with the entries of \<^verbatim>\<open>args\<close> whose key does not start
  with \<^verbatim>\<open>cp_\<close>: no key starting with \<^verbatim>\<open>cp_\<close> is passed, every other entry is, and
  so the forced \<^verbatim>\<open>check_same_thread = False\<close> is passed to the raw connect call.
\<close>

theorem make_conn_keeps_check_same_thread:
  "dict_get db_config ''name'' = Some (PStr ''sqlite3'')
   \<and> DatabaseConnectionConfig_init create_engine nm db_config stores = Inr ent \<longrightarrow>
     (\<exists>a. get_default (config ent) ''args'' (PDict []) = PDict a
        \<and> make_conn ent w = module_connect (engine ent) (db_params a) w
        \<and> dict_get (db_params a) ''check_same_thread'' = Some (PBool False)
        \<and> (\<forall>k. startswith k ''cp_'' \<longrightarrow> k \<notin> keys (db_params a))
        \<and> (\<forall>k. \<not> startswith k ''cp_'' \<longrightarrow> dict_get (db_params a) k = dict_get a k))"
proof
  assume h: "dict_get db_config ''name'' = Some (PStr ''sqlite3'')
   \<and> DatabaseConnectionConfig_init create_engine nm db_config stores = Inr ent"
  then obtain a0 where
    ent: "dict_get (config ent) ''args'' =
               Some (PDict (setitem (dict_update a0 sqlite3_pooling) ''cp_openfun''
                              (on_new_connection (engine ent))))"
    using init_sqlite3_Inr by blast
  let ?a = "setitem (dict_update a0 sqlite3_pooling) ''cp_openfun''
              (on_new_connection (engine ent))"
  from ent have a: "get_default (config ent) ''args'' (PDict []) = PDict ?a"
    by (simp add: get_default_def)
  then have "make_conn ent w = module_connect (engine ent) (db_params ?a) w"
    by (simp add: make_conn_def)
  moreover have "dict_get (db_params ?a) ''check_same_thread'' = Some (PBool False)"
    by (simp add: dict_get_db_params startswith_cp dict_get_setitem dict_get_pooling)
  moreover have "\<forall>k. startswith k ''cp_'' \<longrightarrow> k \<notin> keys (db_params ?a)"
    by (simp add: keys_db_params)
  moreover have "\<forall>k. \<not> startswith k ''cp_'' \<longrightarrow> dict_get (db_params ?a) k = dict_get ?a k"
    by (simp add: dict_get_db_params)
  ultimately show "\<exists>a. get_default (config ent) ''args'' (PDict []) = PDict a
        \<and> make_conn ent w = module_connect (engine ent) (db_params a) w
        \<and> dict_get (db_params a) ''check_same_thread'' = Some (PBool False)
        \<and> (\<forall>k. startswith k ''cp_'' \<longrightarrow> k \<notin> keys (db_params a))
        \<and> (\<forall>k. \<not> startswith k ''cp_'' \<longrightarrow> dict_get (db_params a) k = dict_get a k)"
    using a by blast
qed

theorem make_conn_keeps_check_same_thread_witness:
  "make_conn sqlite_entity [] = (Inr 0, [Connected [(''check_same_thread'', PBool False)]])"
proof -
  have init: "DatabaseConnectionConfig_init log_create_engine (PStr ''master'')
       [(''name'', PStr ''sqlite3'')] [PStr ''main'', PStr ''state''] = Inr sqlite_entity"
    by (simp add: DatabaseConnectionConfig_init_def dict_get_def setdefault_args_update_def
        setitem_def dict_update_def sqlite3_pooling_def log_create_engine_def sqlite_entity_def
        log_engine_def)
  have nm: "dict_get [(''name'', PStr ''sqlite3'')] ''name'' = Some (PStr ''sqlite3'')"
    by (simp add: dict_get_def)
  from make_conn_keeps_check_same_thread
    [of "[(''name'', PStr ''sqlite3'')]" log_create_engine "PStr ''master''"
        "[PStr ''main'', PStr ''state'']" sqlite_entity "[]"] init nm
  obtain a where a: "get_default (config sqlite_entity) ''args'' (PDict []) = PDict a"
    and mc: "make_conn sqlite_entity [] = module_connect (engine sqlite_entity) (db_params a) []"
    by blast
  from a have "a = [(''cp_min'', PInt 1), (''cp_max'', PInt 1),
                    (''check_same_thread'', PBool False), (''cp_openfun'', PObj 7)]"
    by (simp add: sqlite_entity_def get_default_def dict_get_def)
  with mc show ?thesis
    by (simp add: sqlite_entity_def db_params_def startswith_def log_engine_def log_connect_def)
qed

text \<open>
  C8, as stated, fails: the entity constructed from a \<^verbatim>\<open>sqlite3\<close> configuration with
  a database path passes \<^verbatim>\<open>check_same_thread\<close> to the raw connect call, next to the
  path.
\<close>

theorem check_same_thread_reaches_connect:
  "DatabaseConnectionConfig_init log_create_engine (PStr ''master'') tuned_sqlite_config
     [PStr ''main''] = Inr tuned_sqlite_entity
   \<and> make_conn tuned_sqlite_entity [] =
       (Inr 0, [Connected [(''database'', PStr ''/data/homeserver.db''),
                           (''check_same_thread'', PBool False)]])"
  by (simp add: DatabaseConnectionConfig_init_def dict_get_def setdefault_args_update_def
      setitem_def dict_update_def sqlite3_pooling_def log_create_engine_def
      tuned_sqlite_config_def tuned_sqlite_entity_def tuned_sqlite_args_def log_engine_def
      make_conn_def get_default_def db_params_def startswith_def log_connect_def)

subsection \<open>Unsupported backends\<close>

lemma init_unsupported:
  assumes "dict_get db_config ''name'' = Some n" "n \<noteq> PStr ''sqlite3''" "n \<noteq> PStr ''psycopg2''"
  shows "DatabaseConnectionConfig_init create_engine nm db_config stores = Inl (ConfigError n)"
  using assms by (simp add: DatabaseConnectionConfig_init_def)

lemma init_missing:
  assumes "dict_get db_config ''name'' = None"
  shows "DatabaseConnectionConfig_init create_engine nm db_config stores = Inl (KeyError ''name'')"
  using assms by (simp add: DatabaseConnectionConfig_init_def)

lemma read_config_unsupported:
  assumes "parse_size (get_default cfg ''event_cache_size'' (PStr ''10K'')) = Inr ecs"
    and "get_default cfg ''database'' PNone = PDict d"
    and "get_default d ''name'' PNone = n" "n \<noteq> PStr ''sqlite3''" "n \<noteq> PStr ''psycopg2''"
  shows "read_config parse_size abspath cfg = Inl (RuntimeError n)"
  using assms by (simp add: read_config_def Let_def)

text \<open>
  C3, amended.  When \<^verbatim>\<open>db_config\<close> holds a name that is neither \<^verbatim>\<open>sqlite3\<close> nor
  \<^verbatim>\<open>psycopg2\<close>, the constructor raises \<^verbatim>\<open>ConfigError\<close> for that name; when
  \<^verbatim>\<open>db_config\<close> holds no name, it raises \<^verbatim>\<open>KeyError\<close>.  \<^verbatim>\<open>read_config\<close>, once
  \<^verbatim>\<open>event_cache_size\<close> has parsed, raises \<^verbatim>\<open>RuntimeError\<close> for a database block whose
  name is unsupported or missing.  Neither falls back to a default backend.
\<close>

theorem unsupported_backend_rejected:
  "(dict_get db_config ''name'' = Some n \<and> n \<noteq> PStr ''sqlite3'' \<and> n \<noteq> PStr ''psycopg2''
      \<longrightarrow> DatabaseConnectionConfig_init create_engine nm db_config stores
            = Inl (ConfigError n))
   \<and> (dict_get db_config ''name'' = None
      \<longrightarrow> DatabaseConnectionConfig_init create_engine nm db_config stores
            = Inl (KeyError ''name''))
   \<and> (parse_size (get_default cfg ''event_cache_size'' (PStr ''10K'')) = Inr ecs
        \<and> get_default cfg ''database'' PNone = PDict d
        \<and> get_default d ''name'' PNone \<noteq> PStr ''sqlite3''
        \<and> get_default d ''name'' PNone \<noteq> PStr ''psycopg2''
      \<longrightarrow> read_config parse_size abspath cfg
            = Inl (RuntimeError (get_default d ''name'' PNone)))"
  using init_unsupported [of db_config n create_engine nm stores]
    init_missing [of db_config create_engine nm stores]
    read_config_unsupported [of parse_size cfg ecs d "get_default d ''name'' PNone" abspath]
  by blast

theorem unsupported_backend_rejected_witness:
  "DatabaseConnectionConfig_init log_create_engine (PStr ''master'')
       [(''name'', PStr ''mysql''), (''args'', PDict [])] [] = Inl (ConfigError (PStr ''mysql''))
   \<and> DatabaseConnectionConfig_init log_create_engine (PStr ''master'')
       [(''args'', PDict [])] [] = Inl (KeyError ''name'')
   \<and> read_config plain_parse_size posix_abspath
       [(''database'', PDict [(''args'', PDict [])])] = Inl (RuntimeError PNone)"
  using unsupported_backend_rejected
    [of "[(''name'', PStr ''mysql''), (''args'', PDict [])]" "PStr ''mysql''"
        log_create_engine "PStr ''master''" "[]"]
    unsupported_backend_rejected
    [of "[(''args'', PDict [])]" _ log_create_engine "PStr ''master''" "[]"
        plain_parse_size "[(''database'', PDict [(''args'', PDict [])])]" "PInt 10240"
        "[(''args'', PDict [])]" posix_abspath]
  by (simp add: dict_get_def get_default_def plain_parse_size_def)

text \<open>
  C3, as stated, fails: for the unsupported name \<^verbatim>\<open>mysql\<close>, \<^verbatim>\<open>read_config\<close> raises
  \<^verbatim>\<open>RuntimeError\<close>, not \<^verbatim>\<open>ConfigError\<close>; and for a configuration with no name the
  constructor raises \<^verbatim>\<open>KeyError\<close>, not \<^verbatim>\<open>ConfigError\<close>.
\<close>

theorem unsupported_backend_not_always_ConfigError:
  "read_config plain_parse_size posix_abspath
       [(''database'', PDict [(''name'', PStr ''mysql''), (''args'', PDict [])])]
     = Inl (RuntimeError (PStr ''mysql''))
   \<and> DatabaseConnectionConfig_init log_create_engine (PStr ''master'')
        [(''args'', PDict [(''database'', PStr ''/data/homeserver.db'')])] [PStr ''main'']
     = Inl (KeyError ''name'')"
  by (simp add: read_config_def get_default_def dict_get_def plain_parse_size_def
      DatabaseConnectionConfig_init_def)

subsection \<open>The database path\<close>

lemma set_databasepath_sqlite3:
  assumes "database_config self = PDict d" "get_default d ''name'' PNone = PStr ''sqlite3''"
    and "dict_get d ''args'' = Some (PDict a)"
    and "(if p \<noteq> PStr '':memory:'' then abspath p else Inr p) = Inr q" "q \<noteq> PNone"
  shows "set_databasepath abspath p self =
           Inr (self\<lparr> database_config :=
                  PDict (setitem d ''args'' (PDict (setitem a ''database'' q))) \<rparr>)"
  using assms by (simp add: set_databasepath_def)

lemma set_databasepath_unchanged:
  assumes "database_config self = PDict d"
    and "(if p \<noteq> PStr '':memory:'' then abspath p else Inr p) = Inr q"
    and "get_default d ''name'' PNone \<noteq> PStr ''sqlite3'' \<or> q = PNone"
  shows "set_databasepath abspath p self = Inr self"
  using assms by (auto simp: set_databasepath_def)

lemma path_written:
  assumes "database_config self = PDict d" "dict_get d ''args'' = Some (PDict a)"
    and "set_databasepath abspath p self =
           Inr (self\<lparr> database_config :=
                  PDict (setitem d ''args'' (PDict (setitem a ''database'' q))) \<rparr>)"
  shows "\<exists>self' d' a'. set_databasepath abspath p self = Inr self'
           \<and> event_cache_size self' = event_cache_size self
           \<and> database_config self' = PDict d'
           \<and> dict_get d' ''args'' = Some (PDict a')
           \<and> dict_get a' ''database'' = Some q
           \<and> (\<forall>k. k \<noteq> ''database'' \<longrightarrow> dict_get a' k = dict_get a k)
           \<and> (\<forall>k. k \<noteq> ''args'' \<longrightarrow> dict_get d' k = dict_get d k)"
  using assms(3)
  by (intro exI [of _ "self\<lparr> database_config :=
                  PDict (setitem d ''args'' (PDict (setitem a ''database'' q))) \<rparr>"]
      exI [of _ "setitem d ''args'' (PDict (setitem a ''database'' q))"]
      exI [of _ "setitem a ''database'' q"])
     (simp add: dict_get_setitem)

text \<open>
  C6.  Let the database configuration be a dictionary.  For the backend \<^verbatim>\<open>sqlite3\<close>
  with a dictionary under \<^verbatim>\<open>args\<close>, a path that is neither \<^verbatim>\<open>None\<close> nor
  \<^verbatim>\<open>:memory:\<close> is resolved by \<^verbatim>\<open>abspath\<close> and the resolved path is written to
  \<^verbatim>\<open>args["database"]\<close>, every other entry staying as it was; the path \<^verbatim>\<open>:memory:\<close> is
  written as it is, and \<^verbatim>\<open>abspath\<close> is not consulted.  For the backend \<^verbatim>\<open>psycopg2\<close> the
  call returns the configuration unchanged and raises nothing, as long as resolving the
  path raises nothing.  With the path \<^verbatim>\<open>None\<close>, which \<^verbatim>\<open>abspath\<close> hands back, the
  configuration is unchanged.
\<close>

theorem set_databasepath_overrides_sqlite3_path:
  "database_config self = PDict d \<longrightarrow>
     (get_default d ''name'' PNone = PStr ''sqlite3'' \<and> dict_get d ''args'' = Some (PDict a)
        \<and> p \<noteq> PNone \<and> p \<noteq> PStr '':memory:'' \<and> abspath p = Inr q \<and> q \<noteq> PNone \<longrightarrow>
        (\<exists>self' d' a'. set_databasepath abspath p self = Inr self'
           \<and> event_cache_size self' = event_cache_size self
           \<and> database_config self' = PDict d'
           \<and> dict_get d' ''args'' = Some (PDict a')
           \<and> dict_get a' ''database'' = Some q
           \<and> (\<forall>k. k \<noteq> ''database'' \<longrightarrow> dict_get a' k = dict_get a k)
           \<and> (\<forall>k. k \<noteq> ''args'' \<longrightarrow> dict_get d' k = dict_get d k)))
     \<and> (get_default d ''name'' PNone = PStr ''sqlite3'' \<and> dict_get d ''args'' = Some (PDict a) \<longrightarrow>
        (\<exists>self' d' a'. set_databasepath abspath (PStr '':memory:'') self = Inr self'
           \<and> event_cache_size self' = event_cache_size self
           \<and> database_config self' = PDict d'
           \<and> dict_get d' ''args'' = Some (PDict a')
           \<and> dict_get a' ''database'' = Some (PStr '':memory:'')
           \<and> (\<forall>k. k \<noteq> ''database'' \<longrightarrow> dict_get a' k = dict_get a k)
           \<and> (\<forall>k. k \<noteq> ''args'' \<longrightarrow> dict_get d' k = dict_get d k)))
     \<and> (get_default d ''name'' PNone = PStr ''psycopg2''
          \<and> (p = PStr '':memory:'' \<or> (\<exists>r. abspath p = Inr r)) \<longrightarrow>
        set_databasepath abspath p self = Inr self)
     \<and> (abspath PNone = Inr PNone \<longrightarrow> set_databasepath abspath PNone self = Inr self)"
proof (intro impI conjI)
  assume d: "database_config self = PDict d"
  {
    assume h: "get_default d ''name'' PNone = PStr ''sqlite3'' \<and> dict_get d ''args'' = Some (PDict a)
        \<and> p \<noteq> PNone \<and> p \<noteq> PStr '':memory:'' \<and> abspath p = Inr q \<and> q \<noteq> PNone"
    then have "set_databasepath abspath p self =
           Inr (self\<lparr> database_config :=
                  PDict (setitem d ''args'' (PDict (setitem a ''database'' q))) \<rparr>)"
      using d by (intro set_databasepath_sqlite3) simp_all
    with d h show "\<exists>self' d' a'. set_databasepath abspath p self = Inr self'
           \<and> event_cache_size self' = event_cache_size self
           \<and> database_config self' = PDict d'
           \<and> dict_get d' ''args'' = Some (PDict a')
           \<and> dict_get a' ''database'' = Some q
           \<and> (\<forall>k. k \<noteq> ''database'' \<longrightarrow> dict_get a' k = dict_get a k)
           \<and> (\<forall>k. k \<noteq> ''args'' \<longrightarrow> dict_get d' k = dict_get d k)"
      by (intro path_written) simp_all
  }
  {
    assume h: "get_default d ''name'' PNone = PStr ''sqlite3'' \<and> dict_get d ''args'' = Some (PDict a)"
    then have "set_databasepath abspath (PStr '':memory:'') self =
           Inr (self\<lparr> database_config :=
                  PDict (setitem d ''args'' (PDict (setitem a ''database'' (PStr '':memory:'')))) \<rparr>)"
      using d by (intro set_databasepath_sqlite3) simp_all
    with d h show "\<exists>self' d' a'. set_databasepath abspath (PStr '':memory:'') self = Inr self'
           \<and> event_cache_size self' = event_cache_size self
           \<and> database_config self' = PDict d'
           \<and> dict_get d' ''args'' = Some (PDict a')
           \<and> dict_get a' ''database'' = Some (PStr '':memory:'')
           \<and> (\<forall>k. k \<noteq> ''database'' \<longrightarrow> dict_get a' k = dict_get a k)
           \<and> (\<forall>k. k \<noteq> ''args'' \<longrightarrow> dict_get d' k = dict_get d k)"
      by (intro path_written) simp_all
  }
  {
    assume h: "get_default d ''name'' PNone = PStr ''psycopg2''
          \<and> (p = PStr '':memory:'' \<or> (\<exists>r. abspath p = Inr r))"
    then have "\<exists>r. (if p \<noteq> PStr '':memory:'' then abspath p else Inr p) = Inr r"
      by (cases "p = PStr '':memory:''") auto
    then obtain r where "(if p \<noteq> PStr '':memory:'' then abspath p else Inr p) = Inr r" ..
    with d h show "set_databasepath abspath p self = Inr self"
      using set_databasepath_unchanged [of self d p abspath r] by simp
  }
  {
    assume "abspath PNone = Inr PNone"
    with d show "set_databasepath abspath PNone self = Inr self"
      by (intro set_databasepath_unchanged [where q = PNone]) simp_all
  }
qed

theorem set_databasepath_overrides_sqlite3_path_witness:
  "set_databasepath posix_abspath (PStr ''hs.db'')
       \<lparr> event_cache_size = PInt 10240,
         database_config = PDict [(''name'', PStr ''sqlite3''),
                                  (''args'', PDict [(''database'', PStr ''old.db'')])] \<rparr>
     = Inr \<lparr> event_cache_size = PInt 10240,
             database_config = PDict [(''name'', PStr ''sqlite3''),
                                      (''args'', PDict [(''database'', PStr ''/srv/hs.db'')])] \<rparr>
   \<and> set_databasepath posix_abspath (PStr '':memory:'')
       \<lparr> event_cache_size = PInt 10240,
         database_config = PDict [(''name'', PStr ''sqlite3''),
                                  (''args'', PDict [(''database'', PStr ''old.db'')])] \<rparr>
     = Inr \<lparr> event_cache_size = PInt 10240,
             database_config = PDict [(''name'', PStr ''sqlite3''),
                                      (''args'', PDict [(''database'', PStr '':memory:'')])] \<rparr>
   \<and> set_databasepath posix_abspath (PStr ''hs.db'')
       \<lparr> event_cache_size = PInt 10240,
         database_config = PDict [(''name'', PStr ''psycopg2''),
                                  (''args'', PDict [(''host'', PStr ''db'')])] \<rparr>
     = Inr \<lparr> event_cache_size = PInt 10240,
             database_config = PDict [(''name'', PStr ''psycopg2''),
                                      (''args'', PDict [(''host'', PStr ''db'')])] \<rparr>
   \<and> set_databasepath posix_abspath PNone
       \<lparr> event_cache_size = PInt 10240,
         database_config = PDict [(''name'', PStr ''sqlite3''),
                                  (''args'', PDict [(''database'', PStr ''old.db'')])] \<rparr>
     = Inr \<lparr> event_cache_size = PInt 10240,
             database_config = PDict [(''name'', PStr ''sqlite3''),
                                      (''args'', PDict [(''database'', PStr ''old.db'')])] \<rparr>"
proof -
  let ?lite = "\<lparr> event_cache_size = PInt 10240,
         database_config = PDict [(''name'', PStr ''sqlite3''),
                                  (''args'', PDict [(''database'', PStr ''old.db'')])] \<rparr>"
  let ?pg = "\<lparr> event_cache_size = PInt 10240,
         database_config = PDict [(''name'', PStr ''psycopg2''),
                                  (''args'', PDict [(''host'', PStr ''db'')])] \<rparr>"
  have ab: "posix_abspath (PStr ''hs.db'') = Inr (PStr ''/srv/hs.db'')"
    "posix_abspath PNone = Inr PNone"
    by (simp_all add: posix_abspath_def os_path_join_def startswith_def)
  have pg: "set_databasepath posix_abspath (PStr ''hs.db'') ?pg = Inr ?pg"
    using set_databasepath_overrides_sqlite3_path
      [of ?pg "[(''name'', PStr ''psycopg2''), (''args'', PDict [(''host'', PStr ''db'')])]"
          "[]" "PStr ''hs.db''" posix_abspath PNone] ab
    by (simp add: get_default_def dict_get_def)
  have none: "set_databasepath posix_abspath PNone ?lite = Inr ?lite"
    using set_databasepath_overrides_sqlite3_path
      [of ?lite "[(''name'', PStr ''sqlite3''), (''args'', PDict [(''database'', PStr ''old.db'')])]"
          "[(''database'', PStr ''old.db'')]" "PStr ''hs.db''" posix_abspath
          "PStr ''/srv/hs.db''"] ab
    by simp
  have "set_databasepath posix_abspath (PStr ''hs.db'') ?lite
     = Inr \<lparr> event_cache_size = PInt 10240,
             database_config = PDict [(''name'', PStr ''sqlite3''),
                                      (''args'', PDict [(''database'', PStr ''/srv/hs.db'')])] \<rparr>"
    "set_databasepath posix_abspath (PStr '':memory:'') ?lite
     = Inr \<lparr> event_cache_size = PInt 10240,
             database_config = PDict [(''name'', PStr ''sqlite3''),
                                      (''args'', PDict [(''database'', PStr '':memory:'')])] \<rparr>"
    by (simp_all add: set_databasepath_def ab get_default_def dict_get_def setitem_def)
  with pg none show ?thesis by simp
qed

subsection \<open>The default database\<close>

lemma pooling_of_empty: "dict_update [] sqlite3_pooling = sqlite3_pooling"
  by (simp add: dict_update_def sqlite3_pooling_def setitem_def)

lemma default_block:
  "setdefault_args_update [(''name'', PStr ''sqlite3''), (''args'', PDict [])]
     = Inr [(''name'', PStr ''sqlite3''), (''args'', PDict sqlite3_pooling)]"
  by (simp add: setdefault_args_update_def dict_get_def setitem_def pooling_of_empty)

lemma read_config_no_database:
  assumes "get_default cfg ''database'' PNone = PNone"
    and "parse_size (get_default cfg ''event_cache_size'' (PStr ''10K'')) = Inr ecs"
  shows "read_config parse_size abspath cfg =
           set_databasepath abspath (get_default cfg ''database_path'' PNone)
             \<lparr> event_cache_size = ecs,
               database_config =
                 PDict [(''name'', PStr ''sqlite3''), (''args'', PDict sqlite3_pooling)] \<rparr>"
  using assms by (simp add: read_config_def Let_def get_default_def dict_get_def default_block)

lemma default_block_path:
  assumes "(if p \<noteq> PStr '':memory:'' then abspath p else Inr p) = Inr q"
  shows "set_databasepath abspath p
             \<lparr> event_cache_size = ecs,
               database_config =
                 PDict [(''name'', PStr ''sqlite3''), (''args'', PDict sqlite3_pooling)] \<rparr>
         = Inr \<lparr> event_cache_size = ecs,
                 database_config =
                   PDict [(''name'', PStr ''sqlite3''),
                          (''args'', PDict (if q = PNone then sqlite3_pooling
                                            else sqlite3_pooling @ [(''database'', q)]))] \<rparr>"
  using assms
  by (simp add: set_databasepath_def get_default_def dict_get_def setitem_def sqlite3_pooling_def)

lemma generated_default_text:
  assumes "\<not> truthy database_conf"
  shows "\<exists>pre post. generate_config_section dump_indented data_dir_path database_conf =
           pre @ ''database: '' @ dq @ os_path_join data_dir_path ''homeserver.db'' @ dq @ post"
proof -
  let ?path = "os_path_join data_dir_path ''homeserver.db''"
  let ?pre = "''        ## Database ##'' @ nl @ nl @ ''        database:'' @ nl @ ''          '' @
     ''# The database engine name'' @ nl @
     ''          name: '' @ dq @ ''sqlite3'' @ dq @ nl @
     ''          # Arguments to pass to the engine'' @ nl @
     ''          args:'' @ nl @
     ''            # Path to the database'' @ nl @
     ''            ''"
  let ?post = "nl @ ''            '' @ nl @
        ''        # Number of events to cache in memory.'' @ nl @
        ''        #'' @ nl @
        ''        #event_cache_size: 10K'' @ nl @
        ''        ''"
  have "generate_config_section dump_indented data_dir_path database_conf =
           ?pre @ ''database: '' @ dq @ ?path @ dq @ ?post"
    using assms by (simp add: generate_config_section_def default_database_conf_def)
  then show ?thesis by blast
qed

lemma homeserver_db_path:
  assumes "data_dir_path \<noteq> []" "last data_dir_path \<noteq> CHR ''/''"
  shows "os_path_join data_dir_path ''homeserver.db'' = data_dir_path @ ''/homeserver.db''"
  using assms by (simp add: os_path_join_def startswith_def)

text \<open>
  C9, amended.  When the configuration holds no database block, \<^verbatim>\<open>read_config\<close>, once
  \<^verbatim>\<open>event_cache_size\<close> has parsed and the path has resolved, returns the single
  \<^verbatim>\<open>sqlite3\<close> entry whose \<^verbatim>\<open>args\<close> are the forced pooling parameters, followed by
  \<^verbatim>\<open>database\<close> only when a \<^verbatim>\<open>database_path\<close> is given (then the resolved path, or
  \<^verbatim>\<open>:memory:\<close> as it is); the pooling parameters themselves hold no \<^verbatim>\<open>database\<close>.
  The path \<^verbatim>\<open>homeserver.db\<close> under the data directory is what
  \<^verbatim>\<open>generate_config_section\<close> writes, in the line \<^verbatim>\<open>database: "..."\<close> of the generated
  configuration text, when it is given no \<^verbatim>\<open>database_conf\<close>; for a data directory that
  is not empty and does not end in a slash, that path is the directory, a slash and
  \<^verbatim>\<open>homeserver.db\<close>.
\<close>

theorem no_database_block_defaults_to_sqlite3:
  "(get_default cfg ''database'' PNone = PNone
      \<and> parse_size (get_default cfg ''event_cache_size'' (PStr ''10K'')) = Inr ecs
      \<and> get_default cfg ''database_path'' PNone = p
      \<and> (if p \<noteq> PStr '':memory:'' then abspath p else Inr p) = Inr q
    \<longrightarrow> read_config parse_size abspath cfg =
          Inr \<lparr> event_cache_size = ecs,
                database_config =
                  PDict [(''name'', PStr ''sqlite3''),
                         (''args'', PDict (if q = PNone then sqlite3_pooling
                                           else sqlite3_pooling @ [(''database'', q)]))] \<rparr>)
   \<and> dict_get sqlite3_pooling ''database'' = None
   \<and> (\<not> truthy database_conf \<longrightarrow>
        (\<exists>pre post. generate_config_section dump_indented data_dir_path database_conf =
           pre @ ''database: '' @ dq @ os_path_join data_dir_path ''homeserver.db'' @ dq @ post))
   \<and> (data_dir_path \<noteq> [] \<and> last data_dir_path \<noteq> CHR ''/'' \<longrightarrow>
        os_path_join data_dir_path ''homeserver.db'' = data_dir_path @ ''/homeserver.db'')"
proof (intro conjI impI)
  assume h: "get_default cfg ''database'' PNone = PNone
      \<and> parse_size (get_default cfg ''event_cache_size'' (PStr ''10K'')) = Inr ecs
      \<and> get_default cfg ''database_path'' PNone = p
      \<and> (if p \<noteq> PStr '':memory:'' then abspath p else Inr p) = Inr q"
  then have "read_config parse_size abspath cfg =
           set_databasepath abspath p
             \<lparr> event_cache_size = ecs,
               database_config =
                 PDict [(''name'', PStr ''sqlite3''), (''args'', PDict sqlite3_pooling)] \<rparr>"
    using read_config_no_database [of cfg parse_size ecs abspath] by simp
  with h show "read_config parse_size abspath cfg =
          Inr \<lparr> event_cache_size = ecs,
                database_config =
                  PDict [(''name'', PStr ''sqlite3''),
                         (''args'', PDict (if q = PNone then sqlite3_pooling
                                           else sqlite3_pooling @ [(''database'', q)]))] \<rparr>"
    using default_block_path [of p abspath q ecs] by simp
next
  show "dict_get sqlite3_pooling ''database'' = None"
    by (simp add: dict_get_def sqlite3_pooling_def)
next
  assume "\<not> truthy database_conf"
  then show "\<exists>pre post. generate_config_section dump_indented data_dir_path database_conf =
           pre @ ''database: '' @ dq @ os_path_join data_dir_path ''homeserver.db'' @ dq @ post"
    by (rule generated_default_text)
next
  assume "data_dir_path \<noteq> [] \<and> last data_dir_path \<noteq> CHR ''/''"
  then show "os_path_join data_dir_path ''homeserver.db'' = data_dir_path @ ''/homeserver.db''"
    by (simp add: homeserver_db_path)
qed

theorem no_database_block_defaults_to_sqlite3_witness:
  "read_config plain_parse_size posix_abspath [(''event_cache_size'', PInt 500)] =
     Inr \<lparr> event_cache_size = PInt 500,
           database_config =
             PDict [(''name'', PStr ''sqlite3''),
                    (''args'', PDict [(''cp_min'', PInt 1), (''cp_max'', PInt 1),
                                      (''check_same_thread'', PBool False)])] \<rparr>
   \<and> os_path_join ''/var/lib/app'' ''homeserver.db'' = ''/var/lib/app/homeserver.db''
   \<and> generate_config_section (\<lambda>v. []) ''/var/lib/app'' (PDict []) =
        ''        ## Database ##'' @ nl @
        nl @
        ''        database:'' @ nl @
        ''          # The database engine name'' @ nl @
        ''          name: '' @ dq @ ''sqlite3'' @ dq @ nl @
        ''          # Arguments to pass to the engine'' @ nl @
        ''          args:'' @ nl @
        ''            # Path to the database'' @ nl @
        ''            database: '' @ dq @ ''/var/lib/app/homeserver.db'' @ dq @ nl @
        ''            '' @ nl @
        ''        # Number of events to cache in memory.'' @ nl @
        ''        #'' @ nl @
        ''        #event_cache_size: 10K'' @ nl @
        ''        ''"
proof -
  have h: "get_default [(''event_cache_size'', PInt 500)] ''database'' PNone = PNone"
    "plain_parse_size (get_default [(''event_cache_size'', PInt 500)] ''event_cache_size''
        (PStr ''10K'')) = Inr (PInt 500)"
    "get_default [(''event_cache_size'', PInt 500)] ''database_path'' PNone = PNone"
    "(if PNone \<noteq> PStr '':memory:'' then posix_abspath PNone else Inr PNone) = Inr PNone"
    "\<not> truthy (PDict [])"
    "''/var/lib/app'' \<noteq> [] \<and> last ''/var/lib/app'' \<noteq> CHR ''/''"
    by (simp_all add: get_default_def dict_get_def plain_parse_size_def posix_abspath_def
        truthy_def)
  from no_database_block_defaults_to_sqlite3
    [of "[(''event_cache_size'', PInt 500)]" plain_parse_size "PInt 500" PNone posix_abspath
        PNone "PDict []" "\<lambda>v. []" "''/var/lib/app''"] h
  have rc: "read_config plain_parse_size posix_abspath [(''event_cache_size'', PInt 500)] =
     Inr \<lparr> event_cache_size = PInt 500,
           database_config =
             PDict [(''name'', PStr ''sqlite3''), (''args'', PDict sqlite3_pooling)] \<rparr>"
    and pj: "os_path_join ''/var/lib/app'' ''homeserver.db'' = ''/var/lib/app'' @ ''/homeserver.db''"
    by simp_all
  have "generate_config_section (\<lambda>v. []) ''/var/lib/app'' (PDict []) =
        ''        ## Database ##'' @ nl @
        nl @
        ''        database:'' @ nl @
        ''          # The database engine name'' @ nl @
        ''          name: '' @ dq @ ''sqlite3'' @ dq @ nl @
        ''          # Arguments to pass to the engine'' @ nl @
        ''          args:'' @ nl @
        ''            # Path to the database'' @ nl @
        ''            database: '' @ dq @ ''/var/lib/app/homeserver.db'' @ dq @ nl @
        ''            '' @ nl @
        ''        # Number of events to cache in memory.'' @ nl @
        ''        #'' @ nl @
        ''        #event_cache_size: 10K'' @ nl @
        ''        ''"
    using h(5) pj by (simp add: generate_config_section_def default_database_conf_def)
  with rc pj show ?thesis by (simp add: sqlite3_pooling_def)
qed

text \<open>
  C9, as stated, fails: from a configuration with no database block (and no
  \<^verbatim>\<open>database_path\<close>) \<^verbatim>\<open>read_config\<close> returns a \<^verbatim>\<open>sqlite3\<close> entry whose \<^verbatim>\<open>args\<close>
  hold no \<^verbatim>\<open>database\<close> at all; \<^verbatim>\<open>read_config\<close> does not read the data directory.
\<close>

theorem default_database_has_no_path:
  "read_config plain_parse_size posix_abspath [] =
     Inr \<lparr> event_cache_size = PInt 10240,
           database_config =
             PDict [(''name'', PStr ''sqlite3''),
                    (''args'', PDict [(''cp_min'', PInt 1), (''cp_max'', PInt 1),
                                      (''check_same_thread'', PBool False)])] \<rparr>
   \<and> dict_get [(''cp_min'', PInt 1), (''cp_max'', PInt 1),
                (''check_same_thread'', PBool False)] ''database'' = None"
  by (simp add: read_config_def get_default_def dict_get_def plain_parse_size_def
      setdefault_args_update_def setitem_def dict_update_def sqlite3_pooling_def
      set_databasepath_def posix_abspath_def)

end
